theory Spec2Isabelle
  imports Complex_Main "HOL-Library.Log_Nat" "HOL-Library.AList"
begin

section \<open>Python values and exceptions\<close>

text \<open>
  The two traders (\<^verbatim>\<open>autotrader.py\<close> and \<^verbatim>\<open>autotrader5.py\<close>) compute their quote
  prices with Python's mixed \<^verbatim>\<open>int\<close>/\<^verbatim>\<open>float\<close> arithmetic. An \<^verbatim>\<open>int\<close> is unbounded; a
  \<^verbatim>\<open>float\<close> is an IEEE binary64, represented here by its exact rational value. The sign
  of a zero is not represented (\<^verbatim>\<open>-0.0 == 0.0 == 0\<close> in Python, and neither trader
  divides by a computed value or prints one).

  The exceptions are the ones the handlers can raise. \<open>OutsideModel\<close> is not a Python
  exception: it marks a float operation whose result is not a normal binary64 (Python
  would go on with \<^verbatim>\<open>inf\<close> or a subnormal) or a float floor division beyond \<open>2^53\<close>.
  The model gives no result there, so whatever is proved of a result \<open>Inr\<close> is a
  fact of what Python computes.
\<close>

datatype error = IndexError | ZeroDivisionError | OverflowError | UnicodeDecodeError | OutsideModel

datatype pynum = PyInt int | PyFloat rat

definition and_then :: "error + 'a \<Rightarrow> ('a \<Rightarrow> error + 'b) \<Rightarrow> error + 'b" where
  "and_then r f = (case r of Inl e \<Rightarrow> Inl e | Inr v \<Rightarrow> f v)"

text \<open>\<open>xs[i]\<close> for a literal index \<open>i \<ge> 0\<close>.\<close>

definition index :: "'a list \<Rightarrow> nat \<Rightarrow> error + 'a" where
  "index xs i = (if i < length xs then Inr (xs ! i) else Inl IndexError)"

subsection \<open>Rounding to binary64\<close>

text \<open>
  \<open>floor_log2 x\<close> is the exponent \<open>e\<close> with \<open>2^e \<le> x < 2^(e+1)\<close> of a positive
  rational; \<open>rd x\<close> is the nearest number with a 53-bit significand, ties to the even
  significand (the exponent is not bounded here; \<open>float_result\<close> bounds it).
\<close>

definition floor_log2 :: "rat \<Rightarrow> int" where
  "floor_log2 x =
     (let (p, q) = quotient_of x; d = bitlen p - bitlen q
      in if 2 powi d \<le> x then d else d - 1)"

definition rd :: "rat \<Rightarrow> rat" where
  "rd x =
     (if x = 0 then 0
      else
        let u = 2 powi (floor_log2 \<bar>x\<bar> - 52);
            q = \<bar>x\<bar> / u;
            f = \<lfloor>q\<rfloor>;
            r = q - of_int f;
            n = (if r < 1 / 2 then f else if 1 / 2 < r then f + 1
                 else if even f then f else f + 1)
        in sgn x * of_int n * u)"

definition normal :: "rat \<Rightarrow> bool" where
  "normal y \<longleftrightarrow> y = 0 \<or> (- 1022 \<le> floor_log2 \<bar>y\<bar> \<and> floor_log2 \<bar>y\<bar> < 1024)"

text \<open>The result of a float operation whose exact value is \<open>x\<close>.\<close>

definition float_result :: "rat \<Rightarrow> error + pynum" where
  "float_result x = (let y = rd x in if normal y then Inr (PyFloat y) else Inl OutsideModel)"

text \<open>The operand of a float operation: an \<^verbatim>\<open>int\<close> is converted, and raises when it is
  too large for a float.\<close>

fun as_double :: "pynum \<Rightarrow> error + rat" where
  "as_double (PyInt i) =
     (let y = rd (of_int i)
      in if y = 0 \<or> floor_log2 \<bar>y\<bar> < 1024 then Inr y else Inl OverflowError)"
| "as_double (PyFloat r) = Inr r"

fun val :: "pynum \<Rightarrow> rat" where
  "val (PyInt i) = of_int i"
| "val (PyFloat r) = r"

subsection \<open>Arithmetic\<close>

fun py_add :: "pynum \<Rightarrow> pynum \<Rightarrow> error + pynum" where
  "py_add (PyInt i) (PyInt j) = Inr (PyInt (i + j))"
| "py_add a b =
     and_then (as_double a) (\<lambda>x. and_then (as_double b) (\<lambda>y. float_result (x + y)))"

fun py_sub :: "pynum \<Rightarrow> pynum \<Rightarrow> error + pynum" where
  "py_sub (PyInt i) (PyInt j) = Inr (PyInt (i - j))"
| "py_sub a b =
     and_then (as_double a) (\<lambda>x. and_then (as_double b) (\<lambda>y. float_result (x - y)))"

fun py_mul :: "pynum \<Rightarrow> pynum \<Rightarrow> error + pynum" where
  "py_mul (PyInt i) (PyInt j) = Inr (PyInt (i * j))"
| "py_mul a b =
     and_then (as_double a) (\<lambda>x. and_then (as_double b) (\<lambda>y. float_result (x * y)))"

text \<open>
  \<^verbatim>\<open>a / b\<close>. Of two ints it is the correctly rounded quotient, \<^verbatim>\<open>OverflowError\<close> when
  that is too large for a float.
\<close>

fun py_truediv :: "pynum \<Rightarrow> pynum \<Rightarrow> error + pynum" where
  "py_truediv (PyInt i) (PyInt j) =
     (if j = 0 then Inl ZeroDivisionError
      else
        let y = rd (of_int i / of_int j)
        in if y \<noteq> 0 \<and> 1024 \<le> floor_log2 \<bar>y\<bar> then Inl OverflowError
           else if normal y then Inr (PyFloat y) else Inl OutsideModel)"
| "py_truediv a b =
     and_then (as_double a) (\<lambda>x. and_then (as_double b) (\<lambda>y.
       if y = 0 then Inl ZeroDivisionError else float_result (x / y)))"

text \<open>
  \<^verbatim>\<open>a // b\<close>. Of two ints it is the floor of the quotient (\<open>div\<close> on \<open>int\<close> rounds down,
  as Python does). Of floats, CPython computes it from \<^verbatim>\<open>fmod\<close>; the result is the exact
  floor of the quotient when the dividend is below \<open>2^53\<close> and the divisor is a nonzero
  integer below \<open>2^53\<close> (every intermediate value is then an integer below \<open>2^53\<close>), and
  the model covers that case only.
\<close>

fun py_floordiv :: "pynum \<Rightarrow> pynum \<Rightarrow> error + pynum" where
  "py_floordiv (PyInt i) (PyInt j) =
     (if j = 0 then Inl ZeroDivisionError else Inr (PyInt (i div j)))"
| "py_floordiv a b =
     and_then (as_double a) (\<lambda>x. and_then (as_double b) (\<lambda>y.
       if y = 0 then Inl ZeroDivisionError
       else if \<bar>x\<bar> < 2 ^ 53 \<and> \<bar>y\<bar> < 2 ^ 53 \<and> of_int \<lfloor>y\<rfloor> = y
         then Inr (PyFloat (of_int \<lfloor>x / y\<rfloor>))
       else Inl OutsideModel))"

text \<open>
  Comparisons of an int with a float are exact in Python. \<^verbatim>\<open>max(a, b)\<close> keeps its first
  argument unless the second is greater, \<^verbatim>\<open>min(a, b)\<close> unless the second is smaller: the
  result is one of the two objects, an int or a float.
\<close>

definition py_max :: "pynum \<Rightarrow> pynum \<Rightarrow> pynum" where
  "py_max a b = (if val a < val b then b else a)"

definition py_min :: "pynum \<Rightarrow> pynum \<Rightarrow> pynum" where
  "py_min a b = (if val b < val a then b else a)"

text \<open>\<^verbatim>\<open>int(x)\<close> truncates a float toward zero.\<close>

fun py_int :: "pynum \<Rightarrow> int" where
  "py_int (PyInt i) = i"
| "py_int (PyFloat r) = (if 0 \<le> r then \<lfloor>r\<rfloor> else \<lceil>r\<rceil>)"

section \<open>The framework's side\<close>

text \<open>
  Both files import \<^verbatim>\<open>MINIMUM_BID\<close>, \<^verbatim>\<open>MAXIMUM_ASK\<close>, \<^verbatim>\<open>Instrument\<close>, \<^verbatim>\<open>Side\<close> and
  \<^verbatim>\<open>Lifespan\<close> from the package \<^verbatim>\<open>ready_trader_go\<close>, which is not part of the
  sources. The three integer constants are parameters of the model. \<open>ready_trader_go\<close>
  gives the values the package publishes; only closed evaluations use it.
\<close>

record framework =
  MINIMUM_BID :: int
  MAXIMUM_ASK :: int
  FUTURE :: int

definition ready_trader_go :: framework where
  "ready_trader_go = \<lparr>MINIMUM_BID = 1, MAXIMUM_ASK = 2147483647, FUTURE = 0\<rparr>"

datatype side = SELL | BUY

abbreviation (input) ASK :: side where "ASK \<equiv> SELL"
abbreviation (input) BID :: side where "BID \<equiv> BUY"

datatype lifespan = FILL_AND_KILL | GOOD_FOR_DAY

abbreviation (input) GFD :: lifespan where "GFD \<equiv> GOOD_FOR_DAY"

text \<open>What \<^verbatim>\<open>send_insert_order\<close>, \<^verbatim>\<open>send_cancel_order\<close> and \<^verbatim>\<open>send_hedge_order\<close> hand to
  the connection, in the order of the calls.\<close>

datatype command =
  InsertOrder int side int int lifespan
  | CancelOrder int
  | HedgeOrder int side int int

definition POSITION_LIMIT :: int where "POSITION_LIMIT = 100"

definition TICK_SIZE_IN_CENTS :: int where "TICK_SIZE_IN_CENTS = 100"

definition MIN_BID_NEAREST_TICK :: "framework \<Rightarrow> int" where
  "MIN_BID_NEAREST_TICK fw =
     (MINIMUM_BID fw + TICK_SIZE_IN_CENTS) div TICK_SIZE_IN_CENTS * TICK_SIZE_IN_CENTS"

definition MAX_ASK_NEAREST_TICK :: "framework \<Rightarrow> int" where
  "MAX_ASK_NEAREST_TICK fw = MAXIMUM_ASK fw div TICK_SIZE_IN_CENTS * TICK_SIZE_IN_CENTS"

section \<open>The pricing code the two files share\<close>

text \<open>
  \<^verbatim>\<open>fair_price = mid_price + (position / 100) * spread / 2\<close>, then
  \<^verbatim>\<open>fair_price = min(MAX_ASK_NEAREST_TICK, max(MIN_BID_NEAREST_TICK, fair_price))\<close>
  (lines 104--108 of \<^verbatim>\<open>autotrader.py\<close>, 81--84 of \<^verbatim>\<open>autotrader5.py\<close>); \<open>lots\<close> is the
  local \<^verbatim>\<open>position\<close>, the position in lots.
\<close>

definition clamped_fair_price :: "framework \<Rightarrow> int \<Rightarrow> int \<Rightarrow> int \<Rightarrow> error + pynum" where
  "clamped_fair_price fw lots mid_price spread =
     and_then (py_truediv (PyInt lots) (PyInt 100)) (\<lambda>a.
     and_then (py_mul a (PyInt spread)) (\<lambda>b.
     and_then (py_truediv b (PyInt 2)) (\<lambda>skew.
     and_then (py_add (PyInt mid_price) skew) (\<lambda>fair_price.
     Inr (py_min (PyInt (MAX_ASK_NEAREST_TICK fw))
            (py_max (PyInt (MIN_BID_NEAREST_TICK fw)) fair_price))))))"

text \<open>\<^verbatim>\<open>x // TICK_SIZE_IN_CENTS * TICK_SIZE_IN_CENTS\<close>.\<close>

definition round_to_tick :: "pynum \<Rightarrow> error + pynum" where
  "round_to_tick x =
     and_then (py_floordiv x (PyInt TICK_SIZE_IN_CENTS)) (\<lambda>q.
     py_mul q (PyInt TICK_SIZE_IN_CENTS))"

text \<open>
  Lines 118--125 of \<^verbatim>\<open>autotrader.py\<close>, 86--92 of \<^verbatim>\<open>autotrader5.py\<close>: the quotes half a
  spread either side of the fair price, each clamped and rounded down to a tick.
\<close>

definition quote_prices :: "framework \<Rightarrow> int \<Rightarrow> pynum \<Rightarrow> error + pynum \<times> pynum" where
  "quote_prices fw spread fair_price =
     and_then (py_truediv (PyInt spread) (PyInt 2)) (\<lambda>half.
     and_then (py_sub fair_price half) (\<lambda>bid.
     and_then (py_add fair_price half) (\<lambda>ask.
     and_then (round_to_tick
        (py_min (PyInt (MAX_ASK_NEAREST_TICK fw - spread))
           (py_max (PyInt (MIN_BID_NEAREST_TICK fw)) bid))) (\<lambda>bid_px.
     and_then (round_to_tick
        (py_min (PyInt (MAX_ASK_NEAREST_TICK fw))
           (py_max (PyInt (MIN_BID_NEAREST_TICK fw + spread)) ask))) (\<lambda>ask_px.
     Inr (bid_px, ask_px))))))"

section \<open>autotrader.py: fill-and-kill quotes\<close>

definition LOT_SIZE :: int where "LOT_SIZE = 10"

text \<open>
  The fields of \<^verbatim>\<open>AutoTrader\<close>. \<open>order_ids\<close> is the next value of
  \<^verbatim>\<open>itertools.count(1)\<close>; \<open>order_timestamps\<close> is the dict from order id to the clock
  reading of its last fill.
\<close>

record trader =
  order_ids :: int
  bids :: "int set"
  asks :: "int set"
  ask_id :: int
  ask_price :: pynum
  bid_id :: int
  bid_price :: pynum
  position :: int
  order_timestamps :: "(int \<times> rat) list"
  trading_volume :: pynum
  price_trend :: int

definition init :: trader where
  "init = \<lparr>order_ids = 1, bids = {}, asks = {}, ask_id = 0, ask_price = PyInt 0,
            bid_id = 0, bid_price = PyInt 0, position = 0, order_timestamps = [],
            trading_volume = PyInt 0, price_trend = 0\<rparr>"

text \<open>
  Every handler returns the new state and the commands it sent, or the exception it
  raised. A handler that raises does so before its first assignment to \<^verbatim>\<open>self\<close>, so the
  state after an exception is the state before the call.
\<close>

definition on_order_status_message ::
  "trader \<Rightarrow> int \<Rightarrow> int \<Rightarrow> int \<Rightarrow> int \<Rightarrow> error + trader \<times> command list" where
  "on_order_status_message s client_order_id fill_volume remaining_volume fees =
     (if remaining_volume = 0 then
        let s1 = (if client_order_id = bid_id s then s\<lparr>bid_id := 0\<rparr>
                  else if client_order_id = ask_id s then s\<lparr>ask_id := 0\<rparr>
                  else s)
        in Inr (s1\<lparr>bids := bids s1 - {client_order_id},
                    asks := asks s1 - {client_order_id}\<rparr>, [])
      else Inr (s, []))"

text \<open>\<open>decodes\<close> says whether \<^verbatim>\<open>error_message.decode()\<close> succeeds (the bytes are UTF-8);
  the call is an argument of the logging call, evaluated first.\<close>

definition on_error_message ::
  "trader \<Rightarrow> int \<Rightarrow> bool \<Rightarrow> error + trader \<times> command list" where
  "on_error_message s client_order_id decodes =
     (if \<not> decodes then Inl UnicodeDecodeError
      else if client_order_id \<noteq> 0 \<and> (client_order_id \<in> bids s \<or> client_order_id \<in> asks s)
        then on_order_status_message s client_order_id 0 0 0
      else Inr (s, []))"

definition on_hedge_filled_message ::
  "trader \<Rightarrow> int \<Rightarrow> int \<Rightarrow> int \<Rightarrow> error + trader \<times> command list" where
  "on_hedge_filled_message s client_order_id price volume = Inr (s, [])"

text \<open>\<open>now\<close> is what \<^verbatim>\<open>self.event_loop.time()\<close> returns.\<close>

definition on_order_filled_message ::
  "framework \<Rightarrow> rat \<Rightarrow> trader \<Rightarrow> int \<Rightarrow> int \<Rightarrow> int \<Rightarrow> error + trader \<times> command list" where
  "on_order_filled_message fw now s client_order_id price volume =
     (let s1 = s\<lparr>order_timestamps := AList.update client_order_id now (order_timestamps s)\<rparr>
      in
        if client_order_id \<in> bids s1 then
          let s2 = s1\<lparr>position := position s1 + volume\<rparr>
          in if position s2 > POSITION_LIMIT
             then Inr (s2\<lparr>position := position s2 - volume\<rparr>, [CancelOrder client_order_id])
             else Inr (s2\<lparr>order_ids := order_ids s2 + 1\<rparr>,
                       [HedgeOrder (order_ids s2) ASK (MIN_BID_NEAREST_TICK fw) volume])
        else if client_order_id \<in> asks s1 then
          let s2 = s1\<lparr>position := position s1 - volume\<rparr>
          in if position s2 < - POSITION_LIMIT
             then Inr (s2\<lparr>position := position s2 + volume\<rparr>, [CancelOrder client_order_id])
             else Inr (s2\<lparr>order_ids := order_ids s2 + 1\<rparr>,
                       [HedgeOrder (order_ids s2) BID (MAX_ASK_NEAREST_TICK fw) volume])
        else Inr (s1, []))"

text \<open>The term \<^verbatim>\<open>(self.trading_volume / 100) * spread / 2\<close> of lines 113 and 115.\<close>

definition trend_term :: "pynum \<Rightarrow> int \<Rightarrow> error + pynum" where
  "trend_term tv spread =
     and_then (py_truediv tv (PyInt 100)) (\<lambda>a.
     and_then (py_mul a (PyInt spread)) (\<lambda>b.
     py_truediv b (PyInt 2)))"

text \<open>Lines 111--115: "Incorporate trading volume and price trends".\<close>

definition trend_adjusted :: "pynum \<Rightarrow> int \<Rightarrow> int \<Rightarrow> pynum \<Rightarrow> error + pynum" where
  "trend_adjusted tv trend spread fair_price =
     (if val tv \<noteq> 0 then
        if trend > 0 then and_then (trend_term tv spread) (\<lambda>t. py_add fair_price t)
        else and_then (trend_term tv spread) (\<lambda>t. py_sub fair_price t)
      else Inr fair_price)"

text \<open>Lines 128--140: "Update trading volume and price trend".\<close>

definition update_trend :: "trader \<Rightarrow> int list \<Rightarrow> int list \<Rightarrow> error + trader" where
  "update_trend s ask_volumes bid_volumes =
     and_then (index ask_volumes 0) (\<lambda>av.
     and_then (index bid_volumes 0) (\<lambda>bv.
     and_then (py_truediv (PyInt (av + bv)) (PyInt 2)) (\<lambda>current_volume.
       if val (trading_volume s) = 0 then Inr (s\<lparr>trading_volume := current_volume\<rparr>)
       else
         and_then (py_sub current_volume (trading_volume s)) (\<lambda>volume_difference.
         Inr (s\<lparr>trading_volume := current_volume,
                 price_trend := (if val volume_difference > 0 then 1
                                 else if val volume_difference < 0 then - 1 else 0)\<rparr>)))))"

text \<open>Lines 143--148: "Cancel existing orders if necessary". \<^verbatim>\<open>x not in (p, 0)\<close> compares
  by value.\<close>

definition cancel_bid :: "trader \<Rightarrow> pynum \<Rightarrow> trader \<times> command list" where
  "cancel_bid s bid_px =
     (if bid_id s \<noteq> 0 \<and> \<not> (val bid_px = val (bid_price s) \<or> val bid_px = 0)
      then (s\<lparr>bid_id := 0\<rparr>, [CancelOrder (bid_id s)]) else (s, []))"

definition cancel_ask :: "trader \<Rightarrow> pynum \<Rightarrow> trader \<times> command list" where
  "cancel_ask s ask_px =
     (if ask_id s \<noteq> 0 \<and> \<not> (val ask_px = val (ask_price s) \<or> val ask_px = 0)
      then (s\<lparr>ask_id := 0\<rparr>, [CancelOrder (ask_id s)]) else (s, []))"

text \<open>Lines 151--165: "Place new orders if necessary".\<close>

definition place_bid :: "trader \<Rightarrow> pynum \<Rightarrow> trader \<times> command list" where
  "place_bid s bid_px =
     (if bid_id s = 0 \<and> position s < POSITION_LIMIT then
        let max_order_size = min (POSITION_LIMIT - position s) LOT_SIZE;
            n = order_ids s
        in (s\<lparr>order_ids := n + 1, bid_id := n, bid_price := bid_px,
               bids := insert n (bids s)\<rparr>,
            [InsertOrder n BUY (py_int bid_px) max_order_size FILL_AND_KILL])
      else (s, []))"

definition place_ask :: "trader \<Rightarrow> pynum \<Rightarrow> trader \<times> command list" where
  "place_ask s ask_px =
     (if ask_id s = 0 \<and> position s > - POSITION_LIMIT then
        let max_order_size = min (POSITION_LIMIT + position s) LOT_SIZE;
            n = order_ids s
        in (s\<lparr>order_ids := n + 1, ask_id := n, ask_price := ask_px,
               asks := insert n (asks s)\<rparr>,
            [InsertOrder n SELL (py_int ask_px) max_order_size FILL_AND_KILL])
      else (s, []))"

text \<open>The four steps in the order of the source, with the commands they send.\<close>

definition requote :: "trader \<Rightarrow> pynum \<Rightarrow> pynum \<Rightarrow> trader \<times> command list" where
  "requote s bid_px ask_px =
     (let (s1, c1) = cancel_bid s bid_px;
          (s2, c2) = cancel_ask s1 ask_px;
          (s3, c3) = place_bid s2 bid_px;
          (s4, c4) = place_ask s3 ask_px
      in (s4, c1 @ c2 @ c3 @ c4))"

text \<open>
  Lines 101--125: the quote prices, from the best bid and ask of the book, the
  position and the trend state. Nothing is assigned to \<^verbatim>\<open>self\<close> here.
\<close>

definition prices :: "framework \<Rightarrow> trader \<Rightarrow> int \<Rightarrow> int \<Rightarrow> error + pynum \<times> pynum" where
  "prices fw s bid0 ask0 =
     (let lots = position s div LOT_SIZE;
          mid_price = (bid0 + ask0) div 2;
          spread = ask0 - bid0
      in
        and_then (clamped_fair_price fw lots mid_price spread) (\<lambda>fair_price.
        and_then (trend_adjusted (trading_volume s) (price_trend s) spread fair_price)
          (\<lambda>fair_price.
        quote_prices fw spread fair_price)))"

definition on_order_book_update_message ::
  "framework \<Rightarrow> trader \<Rightarrow> int \<Rightarrow> int \<Rightarrow> int list \<Rightarrow> int list \<Rightarrow> int list \<Rightarrow> int list
   \<Rightarrow> error + trader \<times> command list" where
  "on_order_book_update_message fw s instrument sequence_number
       ask_prices ask_volumes bid_prices bid_volumes =
     (if instrument = FUTURE fw then
        and_then (index bid_prices 0) (\<lambda>bid0.
        and_then (index ask_prices 0) (\<lambda>ask0.
        and_then (prices fw s bid0 ask0) (\<lambda>(bid_px, ask_px).
        and_then (update_trend s ask_volumes bid_volumes) (\<lambda>s1.
        Inr (requote s1 bid_px ask_px)))))
      else Inr (s, []))"

section \<open>autotrader5.py: good-for-day quotes\<close>

definition LOT_SIZE5 :: int where "LOT_SIZE5 = 20"

text \<open>
  \<^verbatim>\<open>self.bids\<close> and \<^verbatim>\<open>self.asks\<close> are dicts here, from order id to
  \<^verbatim>\<open>{'price': ..., 'size': ...}\<close>: association lists in insertion order, updated with
  \<open>AList.update\<close> (an existing key keeps its place) and \<open>AList.delete\<close>.
\<close>

record order =
  order_price :: pynum
  order_size :: int

record trader5 =
  order_ids5 :: int
  bids5 :: "(int \<times> order) list"
  asks5 :: "(int \<times> order) list"
  ask_id5 :: int
  ask_price5 :: pynum
  bid_id5 :: int
  bid_price5 :: pynum
  position5 :: int

definition init5 :: trader5 where
  "init5 = \<lparr>order_ids5 = 1, bids5 = [], asks5 = [], ask_id5 = 0, ask_price5 = PyInt 0,
             bid_id5 = 0, bid_price5 = PyInt 0, position5 = 0\<rparr>"

definition on_order_status_message5 ::
  "trader5 \<Rightarrow> int \<Rightarrow> int \<Rightarrow> int \<Rightarrow> int \<Rightarrow> error + trader5 \<times> command list" where
  "on_order_status_message5 s client_order_id fill_volume remaining_volume fees =
     (if remaining_volume = 0 then
        let s1 = (if client_order_id = bid_id5 s then s\<lparr>bid_id5 := 0\<rparr>
                  else if client_order_id = ask_id5 s then s\<lparr>ask_id5 := 0\<rparr>
                  else s)
        in Inr (s1\<lparr>bids5 := AList.delete client_order_id (bids5 s1),
                    asks5 := AList.delete client_order_id (asks5 s1)\<rparr>, [])
      else Inr (s, []))"

definition on_error_message5 ::
  "trader5 \<Rightarrow> int \<Rightarrow> bool \<Rightarrow> error + trader5 \<times> command list" where
  "on_error_message5 s client_order_id decodes =
     (if \<not> decodes then Inl UnicodeDecodeError
      else if client_order_id \<noteq> 0
          \<and> (client_order_id \<in> fst ` set (bids5 s) \<or> client_order_id \<in> fst ` set (asks5 s))
        then on_order_status_message5 s client_order_id 0 0 0
      else Inr (s, []))"

definition on_hedge_filled_message5 ::
  "trader5 \<Rightarrow> int \<Rightarrow> int \<Rightarrow> int \<Rightarrow> error + trader5 \<times> command list" where
  "on_hedge_filled_message5 s client_order_id price volume = Inr (s, [])"

definition on_order_filled_message5 ::
  "framework \<Rightarrow> trader5 \<Rightarrow> int \<Rightarrow> int \<Rightarrow> int \<Rightarrow> error + trader5 \<times> command list" where
  "on_order_filled_message5 fw s client_order_id price volume =
     (if client_order_id \<in> fst ` set (bids5 s) then
        let s1 = s\<lparr>position5 := position5 s + volume\<rparr>
        in if position5 s1 > POSITION_LIMIT
           then Inr (s1\<lparr>position5 := POSITION_LIMIT\<rparr>, [])
           else Inr (s1\<lparr>order_ids5 := order_ids5 s1 + 1\<rparr>,
                     [HedgeOrder (order_ids5 s1) ASK (MIN_BID_NEAREST_TICK fw) volume])
      else if client_order_id \<in> fst ` set (asks5 s) then
        let s1 = s\<lparr>position5 := position5 s - volume\<rparr>
        in if position5 s1 < - POSITION_LIMIT
           then Inr (s1\<lparr>position5 := - POSITION_LIMIT\<rparr>, [])
           else Inr (s1\<lparr>order_ids5 := order_ids5 s1 + 1\<rparr>,
                     [HedgeOrder (order_ids5 s1) BID (MAX_ASK_NEAREST_TICK fw) volume])
      else Inr (s, []))"

definition on_trade_ticks_message5 ::
  "trader5 \<Rightarrow> int \<Rightarrow> int \<Rightarrow> int list \<Rightarrow> int list \<Rightarrow> int list \<Rightarrow> int list
   \<Rightarrow> error + trader5 \<times> command list" where
  "on_trade_ticks_message5 s instrument sequence_number
       ask_prices ask_volumes bid_prices bid_volumes = Inr (s, [])"

text \<open>Lines 94--99.\<close>

definition cancel_bid5 :: "trader5 \<Rightarrow> pynum \<Rightarrow> trader5 \<times> command list" where
  "cancel_bid5 s bid_px =
     (if bid_id5 s \<noteq> 0 \<and> \<not> (val bid_px = val (bid_price5 s) \<or> val bid_px = 0)
      then (s\<lparr>bid_id5 := 0\<rparr>, [CancelOrder (bid_id5 s)]) else (s, []))"

definition cancel_ask5 :: "trader5 \<Rightarrow> pynum \<Rightarrow> trader5 \<times> command list" where
  "cancel_ask5 s ask_px =
     (if ask_id5 s \<noteq> 0 \<and> \<not> (val ask_px = val (ask_price5 s) \<or> val ask_px = 0)
      then (s\<lparr>ask_id5 := 0\<rparr>, [CancelOrder (ask_id5 s)]) else (s, []))"

text \<open>\<^verbatim>\<open>sum(order['size'] for order in d.values())\<close>.\<close>

definition outstanding_volume :: "(int \<times> order) list \<Rightarrow> int" where
  "outstanding_volume d = sum_list (map (\<lambda>(k, v). order_size v) d)"

text \<open>Lines 101--123: the order is sent whatever its size.\<close>

definition place_bid5 :: "trader5 \<Rightarrow> pynum \<Rightarrow> int \<Rightarrow> trader5 \<times> command list" where
  "place_bid5 s bid_px bid_volume =
     (if bid_id5 s = 0 \<and> position5 s < POSITION_LIMIT then
        let outstanding_bid_volume = outstanding_volume (bids5 s);
            max_order_size =
              min 14 (max 0 (min (POSITION_LIMIT - position5 s - outstanding_bid_volume)
                                 bid_volume));
            n = order_ids5 s
        in (s\<lparr>order_ids5 := n + 1, bid_id5 := n, bid_price5 := bid_px,
               bids5 := AList.update n
                 \<lparr>order_price = bid_px, order_size = max_order_size\<rparr> (bids5 s)\<rparr>,
            [InsertOrder n BUY (py_int bid_px) max_order_size GFD])
      else (s, []))"

definition place_ask5 :: "trader5 \<Rightarrow> pynum \<Rightarrow> int \<Rightarrow> trader5 \<times> command list" where
  "place_ask5 s ask_px ask_volume =
     (if ask_id5 s = 0 \<and> position5 s > - POSITION_LIMIT then
        let outstanding_ask_volume = outstanding_volume (asks5 s);
            max_order_size =
              min 14 (max 0 (min (POSITION_LIMIT + position5 s - outstanding_ask_volume)
                                 ask_volume));
            n = order_ids5 s
        in (s\<lparr>order_ids5 := n + 1, ask_id5 := n, ask_price5 := ask_px,
               asks5 := AList.update n
                 \<lparr>order_price = ask_px, order_size = max_order_size\<rparr> (asks5 s)\<rparr>,
            [InsertOrder n SELL (py_int ask_px) max_order_size GFD])
      else (s, []))"

definition requote5 ::
  "trader5 \<Rightarrow> pynum \<Rightarrow> pynum \<Rightarrow> int \<Rightarrow> int \<Rightarrow> trader5 \<times> command list" where
  "requote5 s bid_px ask_px bid_volume ask_volume =
     (let (s1, c1) = cancel_bid5 s bid_px;
          (s2, c2) = cancel_ask5 s1 ask_px;
          (s3, c3) = place_bid5 s2 bid_px bid_volume;
          (s4, c4) = place_ask5 s3 ask_px ask_volume
      in (s4, c1 @ c2 @ c3 @ c4))"

text \<open>Lines 76--92: the quote prices; the spread is that of the third level of the book.\<close>

definition prices5 ::
  "framework \<Rightarrow> trader5 \<Rightarrow> int \<Rightarrow> int \<Rightarrow> int \<Rightarrow> int \<Rightarrow> error + pynum \<times> pynum" where
  "prices5 fw s bid0 ask0 bid2 ask2 =
     (let lots = position5 s div LOT_SIZE5;
          mid_price = (bid0 + ask0) div 2;
          spread = ask2 - bid2
      in
        and_then (clamped_fair_price fw lots mid_price spread) (\<lambda>fair_price.
        quote_prices fw spread fair_price))"

definition on_order_book_update_message5 ::
  "framework \<Rightarrow> trader5 \<Rightarrow> int \<Rightarrow> int \<Rightarrow> int list \<Rightarrow> int list \<Rightarrow> int list \<Rightarrow> int list
   \<Rightarrow> error + trader5 \<times> command list" where
  "on_order_book_update_message5 fw s instrument sequence_number
       ask_prices ask_volumes bid_prices bid_volumes =
     (if instrument = FUTURE fw then
        and_then (index bid_volumes 0) (\<lambda>bid_volume.
        and_then (index ask_volumes 0) (\<lambda>ask_volume.
        and_then (index bid_prices 0) (\<lambda>bid0.
        and_then (index ask_prices 0) (\<lambda>ask0.
        and_then (index ask_prices 2) (\<lambda>ask2.
        and_then (index bid_prices 2) (\<lambda>bid2.
        and_then (prices5 fw s bid0 ask0 bid2 ask2) (\<lambda>(bid_px, ask_px).
        Inr (requote5 s bid_px ask_px bid_volume ask_volume))))))))
      else Inr (s, []))"

section \<open>Events\<close>

text \<open>
  Modelled from the spec: the dispatcher is the framework's \<^verbatim>\<open>BaseAutoTrader\<close>, which is
  not part of the sources. It delivers the events of the spec's section 6 one at a time,
  each to the handler of its name. \<^verbatim>\<open>autotrader.py\<close> does not override the
  trade-ticks handler, which the spec gives no reaction. A fill reports a volume that is
  not negative (section 3: "filled volume: integer \<ge> 0"); \<open>delivered\<close> says so.
\<close>

datatype event =
  OrderBookUpdate int int "int list" "int list" "int list" "int list"
  | TradeTicks int int "int list" "int list" "int list" "int list"
  | OrderFilled int int int
  | HedgeFilled int int int
  | OrderStatus int int int int
  | ErrorMessage int bool

fun delivered :: "event \<Rightarrow> bool" where
  "delivered (OrderFilled client_order_id price volume) = (0 \<le> volume)"
| "delivered ev = True"

fun handle :: "framework \<Rightarrow> rat \<Rightarrow> trader \<Rightarrow> event \<Rightarrow> error + trader \<times> command list" where
  "handle fw now s (OrderBookUpdate i n ap av bp bv) =
     on_order_book_update_message fw s i n ap av bp bv"
| "handle fw now s (TradeTicks i n ap av bp bv) = Inr (s, [])"
| "handle fw now s (OrderFilled c p v) = on_order_filled_message fw now s c p v"
| "handle fw now s (HedgeFilled c p v) = on_hedge_filled_message s c p v"
| "handle fw now s (OrderStatus c f r fees) = on_order_status_message s c f r fees"
| "handle fw now s (ErrorMessage c d) = on_error_message s c d"

fun handle5 :: "framework \<Rightarrow> trader5 \<Rightarrow> event \<Rightarrow> error + trader5 \<times> command list" where
  "handle5 fw s (OrderBookUpdate i n ap av bp bv) =
     on_order_book_update_message5 fw s i n ap av bp bv"
| "handle5 fw s (TradeTicks i n ap av bp bv) = on_trade_ticks_message5 s i n ap av bp bv"
| "handle5 fw s (OrderFilled c p v) = on_order_filled_message5 fw s c p v"
| "handle5 fw s (HedgeFilled c p v) = on_hedge_filled_message5 s c p v"
| "handle5 fw s (OrderStatus c f r fees) = on_order_status_message5 s c f r fees"
| "handle5 fw s (ErrorMessage c d) = on_error_message5 s c d"

text \<open>
  \<open>steps fw s s'\<close>: the trader gets from state \<open>s\<close> to state \<open>s'\<close> by handling events,
  each at some clock reading. Only calls that return count: a handler that raises
  leaves the state as it was. The reachable states are those the initial state gets to;
  they are the states between two handler calls.
\<close>

inductive steps :: "framework \<Rightarrow> trader \<Rightarrow> trader \<Rightarrow> bool" for fw :: framework where
  steps_refl: "steps fw s s"
| steps_step:
    "steps fw s s1 \<Longrightarrow> delivered ev \<Longrightarrow> handle fw now s1 ev = Inr (s2, cmds)
     \<Longrightarrow> steps fw s s2"

definition reachable :: "framework \<Rightarrow> trader \<Rightarrow> bool" where
  "reachable fw s = steps fw init s"

inductive steps5 :: "framework \<Rightarrow> trader5 \<Rightarrow> trader5 \<Rightarrow> bool" for fw :: framework where
  steps5_refl: "steps5 fw s s"
| steps5_step:
    "steps5 fw s s1 \<Longrightarrow> delivered ev \<Longrightarrow> handle5 fw s1 ev = Inr (s2, cmds)
     \<Longrightarrow> steps5 fw s s2"

definition reachable5 :: "framework \<Rightarrow> trader5 \<Rightarrow> bool" where
  "reachable5 fw s = steps5 fw init5 s"

section \<open>Invariants\<close>

text \<open>
  \<open>within_limit\<close> is the position limit. \<open>ids_ok\<close> holds of every reachable state of
  \<^verbatim>\<open>autotrader.py\<close>: the order ids in use were all issued by the counter, no id is both
  a bid and an ask, and the two quote slots never hold the same order. \<open>retired s c\<close>:
  the id \<open>c\<close> was issued and is no longer in use.
\<close>

definition within_limit :: "int \<Rightarrow> bool" where
  "within_limit p \<longleftrightarrow> - POSITION_LIMIT \<le> p \<and> p \<le> POSITION_LIMIT"

definition ids_ok :: "trader \<Rightarrow> bool" where
  "ids_ok s \<longleftrightarrow>
     0 < order_ids s \<and> bid_id s < order_ids s \<and> ask_id s < order_ids s
     \<and> (bid_id s = ask_id s \<longrightarrow> bid_id s = 0)
     \<and> (\<forall>i. i \<in> bids s \<longrightarrow> 0 < i \<and> i < order_ids s)
     \<and> (\<forall>i. i \<in> asks s \<longrightarrow> 0 < i \<and> i < order_ids s)
     \<and> bids s \<inter> asks s = {}"

definition retired :: "trader \<Rightarrow> int \<Rightarrow> bool" where
  "retired s c \<longleftrightarrow>
     c < order_ids s \<and> c \<notin> bids s \<and> c \<notin> asks s
     \<and> (c = 0 \<or> (c \<noteq> bid_id s \<and> c \<noteq> ask_id s))"

text \<open>The same for \<^verbatim>\<open>autotrader5.py\<close>, whose dicts also keep their keys distinct.\<close>

definition ids_ok5 :: "trader5 \<Rightarrow> bool" where
  "ids_ok5 s \<longleftrightarrow>
     0 < order_ids5 s \<and> bid_id5 s < order_ids5 s \<and> ask_id5 s < order_ids5 s
     \<and> (bid_id5 s = ask_id5 s \<longrightarrow> bid_id5 s = 0)
     \<and> (\<forall>i. i \<in> fst ` set (bids5 s) \<longrightarrow> 0 < i \<and> i < order_ids5 s)
     \<and> (\<forall>i. i \<in> fst ` set (asks5 s) \<longrightarrow> 0 < i \<and> i < order_ids5 s)
     \<and> fst ` set (bids5 s) \<inter> fst ` set (asks5 s) = {}
     \<and> distinct (map fst (bids5 s)) \<and> distinct (map fst (asks5 s))"

definition retired5 :: "trader5 \<Rightarrow> int \<Rightarrow> bool" where
  "retired5 s c \<longleftrightarrow>
     c < order_ids5 s \<and> c \<notin> fst ` set (bids5 s) \<and> c \<notin> fst ` set (asks5 s)
     \<and> (c = 0 \<or> (c \<noteq> bid_id5 s \<and> c \<noteq> ask_id5 s))"

section \<open>Scenarios\<close>

text \<open>
  The states the closed evaluations below start from or arrive at. \<open>quoting\<close> is
  \<^verbatim>\<open>autotrader.py\<close> after its first order book (best bid 10000, best ask 10002),
  \<open>hedged\<close> the same after its bid 1 was filled for 10 lots; \<open>quoting5\<close> is
  \<^verbatim>\<open>autotrader5.py\<close> after a first order book with no bids, \<open>hedged5\<close> the same after
  its ask 2 was filled for 5 lots. In \<open>bid_retired\<close> the bid 1 has had its terminal
  status, in \<open>both_retired\<close> the ask 2 as well.
\<close>

definition quoting :: trader where
  "quoting = \<lparr>order_ids = 3, bids = {1}, asks = {2}, ask_id = 2, ask_price = PyFloat 10000,
               bid_id = 1, bid_price = PyFloat 10000, position = 0, order_timestamps = [],
               trading_volume = PyFloat 6, price_trend = 0\<rparr>"

definition hedged :: trader where
  "hedged = quoting\<lparr>order_ids := 4, position := 10, order_timestamps := [(1, 0)]\<rparr>"

definition quoting5 :: trader5 where
  "quoting5 =
     \<lparr>order_ids5 = 3,
      bids5 = [(1, \<lparr>order_price = PyInt 100, order_size = 0\<rparr>)],
      asks5 = [(2, \<lparr>order_price = PyInt 10300, order_size = 5\<rparr>)],
      ask_id5 = 2, ask_price5 = PyInt 10300, bid_id5 = 1, bid_price5 = PyInt 100,
      position5 = 0\<rparr>"

definition hedged5 :: trader5 where
  "hedged5 = quoting5\<lparr>order_ids5 := 4, position5 := - 5\<rparr>"

definition bid_retired :: trader where
  "bid_retired = quoting\<lparr>bid_id := 0, bids := {}\<rparr>"

definition both_retired :: trader where
  "both_retired = quoting\<lparr>bid_id := 0, bids := {}, ask_id := 0, asks := {}\<rparr>"

definition bid_retired5 :: trader5 where
  "bid_retired5 = quoting5\<lparr>bid_id5 := 0, bids5 := []\<rparr>"

definition both_retired5 :: trader5 where
  "both_retired5 = quoting5\<lparr>bid_id5 := 0, bids5 := [], ask_id5 := 0, asks5 := []\<rparr>"

section \<open>What the handlers of autotrader.py preserve\<close>

lemma and_then_InrE:
  assumes "and_then r f = Inr y"
  obtains v where "r = Inr v" and "f v = Inr y"
  using assms by (cases r) (simp_all add: and_then_def)

lemma update_trend_frame:
  assumes "update_trend s av bv = Inr s1"
  shows "\<exists>tv tr. s1 = s\<lparr>trading_volume := tv, price_trend := tr\<rparr>"
proof -
  from assms obtain cv where r:
    "(if val (trading_volume s) = 0 then Inr (s\<lparr>trading_volume := cv\<rparr>)
       else
         and_then (py_sub cv (trading_volume s)) (\<lambda>volume_difference.
         Inr (s\<lparr>trading_volume := cv,
                 price_trend := (if val volume_difference > 0 then 1
                                 else if val volume_difference < 0 then - 1 else 0)\<rparr>))) = Inr s1"
    unfolding update_trend_def by (elim and_then_InrE)
  show ?thesis
  proof (cases "val (trading_volume s) = 0")
    case True
    with r have "s1 = s\<lparr>trading_volume := cv\<rparr>" by simp
    then have "s1 = s\<lparr>trading_volume := cv, price_trend := price_trend s\<rparr>"
      by (cases s) simp
    then show ?thesis by blast
  next
    case False
    with r show ?thesis by (auto elim!: and_then_InrE)
  qed
qed

lemma book_update_Inr:
  assumes "on_order_book_update_message fw s i n ap av bp bv = Inr (s', c)" and "i = FUTURE fw"
  shows "\<exists>s1 b a. update_trend s av bv = Inr s1 \<and> (s', c) = requote s1 b a"
proof -
  from assms obtain q s1 where "update_trend s av bv = Inr s1"
    and "requote s1 (fst q) (snd q) = (s', c)"
    unfolding on_order_book_update_message_def
    by (simp add: Let_def case_prod_unfold) (elim and_then_InrE, blast)
  then show ?thesis by metis
qed

lemma requote_preserves:
  assumes "\<And>s b. P s \<Longrightarrow> P (fst (cancel_bid s b))"
    and "\<And>s a. P s \<Longrightarrow> P (fst (cancel_ask s a))"
    and "\<And>s b. P s \<Longrightarrow> P (fst (place_bid s b))"
    and "\<And>s a. P s \<Longrightarrow> P (fst (place_ask s a))"
    and "P s"
  shows "P (fst (requote s b a))"
  using assms by (simp add: requote_def split_beta Let_def)

lemma book_update_preserves:
  assumes "\<And>s b. P s \<Longrightarrow> P (fst (cancel_bid s b))"
    and "\<And>s a. P s \<Longrightarrow> P (fst (cancel_ask s a))"
    and "\<And>s b. P s \<Longrightarrow> P (fst (place_bid s b))"
    and "\<And>s a. P s \<Longrightarrow> P (fst (place_ask s a))"
    and "\<And>s tv tr. P s \<Longrightarrow> P (s\<lparr>trading_volume := tv, price_trend := tr\<rparr>)"
    and "P s"
    and "on_order_book_update_message fw s i n ap av bp bv = Inr (s', c)"
  shows "P s'"
proof (cases "i = FUTURE fw")
  case False
  with assms(6,7) show ?thesis by (simp add: on_order_book_update_message_def)
next
  case True
  from book_update_Inr [OF assms(7) True] obtain s1 b a
    where u: "update_trend s av bv = Inr s1" and r: "(s', c) = requote s1 b a" by blast
  from update_trend_frame [OF u] assms(5,6) have "P s1" by blast
  with assms(1-4) have "P (fst (requote s1 b a))" by (rule requote_preserves [where P = P])
  with r show ?thesis by (metis fst_conv)
qed

lemma position_book_update:
  assumes "on_order_book_update_message fw s i n ap av bp bv = Inr (s', c)"
  shows "position s' = position s"
proof -
  have "(\<lambda>t. position t = position s) s'"
    by (rule book_update_preserves [where P = "\<lambda>t. position t = position s", OF _ _ _ _ _ _ assms])
      (simp_all add: cancel_bid_def cancel_ask_def place_bid_def place_ask_def Let_def)
  then show ?thesis .
qed

lemma ids_ok_book_update:
  assumes "ids_ok s" and "on_order_book_update_message fw s i n ap av bp bv = Inr (s', c)"
  shows "ids_ok s'"
proof (rule book_update_preserves [where P = ids_ok, OF _ _ _ _ _ assms])
  show "ids_ok (fst (cancel_bid s b))" if "ids_ok s" for s b
    using that by (simp add: cancel_bid_def ids_ok_def)
  show "ids_ok (fst (cancel_ask s a))" if "ids_ok s" for s a
    using that by (simp add: cancel_ask_def ids_ok_def)
  show "ids_ok (fst (place_bid s b))" if "ids_ok s" for s b
    using that by (auto simp: place_bid_def ids_ok_def Let_def)
  show "ids_ok (fst (place_ask s a))" if "ids_ok s" for s a
    using that by (auto simp: place_ask_def ids_ok_def Let_def)
  show "ids_ok (s\<lparr>trading_volume := tv, price_trend := tr\<rparr>)" if "ids_ok s" for s tv tr
    using that by (simp add: ids_ok_def)
qed

lemma retired_book_update:
  assumes "retired s k" and "on_order_book_update_message fw s i n ap av bp bv = Inr (s', c)"
  shows "retired s' k"
proof -
  have "(\<lambda>t. retired t k) s'"
  proof (rule book_update_preserves [where P = "\<lambda>t. retired t k", OF _ _ _ _ _ _ assms(2)])
    show "retired (fst (cancel_bid s b)) k" if "retired s k" for s b
      using that by (auto simp: cancel_bid_def retired_def)
    show "retired (fst (cancel_ask s a)) k" if "retired s k" for s a
      using that by (auto simp: cancel_ask_def retired_def)
    show "retired (fst (place_bid s b)) k" if "retired s k" for s b
      using that by (auto simp: place_bid_def retired_def Let_def)
    show "retired (fst (place_ask s a)) k" if "retired s k" for s a
      using that by (auto simp: place_ask_def retired_def Let_def)
    show "retired (s\<lparr>trading_volume := tv, price_trend := tr\<rparr>) k" if "retired s k" for s tv tr
      using that by (simp add: retired_def)
    show "retired s k" by (rule assms(1))
  qed
  then show ?thesis .
qed


lemma status_zero:
  "on_order_status_message s c f 0 fees =
     Inr (s\<lparr>bid_id := (if c = bid_id s then 0 else bid_id s),
            ask_id := (if c \<noteq> bid_id s \<and> c = ask_id s then 0 else ask_id s),
            bids := bids s - {c}, asks := asks s - {c}\<rparr>, [])"
  by (cases s) (simp add: on_order_status_message_def Let_def)

lemma status_nonzero: "r \<noteq> 0 \<Longrightarrow> on_order_status_message s c f r fees = Inr (s, [])"
  by (simp add: on_order_status_message_def)

lemma position_status:
  "on_order_status_message s c f r fees = Inr (s', cmds) \<Longrightarrow> position s' = position s"
  by (cases "r = 0") (auto simp: status_zero status_nonzero)

lemma ids_ok_status:
  "ids_ok s \<Longrightarrow> on_order_status_message s c f r fees = Inr (s', cmds) \<Longrightarrow> ids_ok s'"
  by (cases "r = 0") (auto simp: status_zero status_nonzero ids_ok_def split: if_splits)

lemma retired_status:
  "retired s k \<Longrightarrow> on_order_status_message s c f r fees = Inr (s', cmds) \<Longrightarrow> retired s' k"
  by (cases "r = 0") (auto simp: status_zero status_nonzero retired_def split: if_splits)

lemma error_result:
  "on_error_message s c d = Inr (s', cmds) \<Longrightarrow>
     (s', cmds) = (s, []) \<or> on_order_status_message s c 0 0 0 = Inr (s', cmds)"
  by (auto simp: on_error_message_def split: if_splits)

lemma filled_total:
  "\<exists>s' cmds. on_order_filled_message fw now s c p v = Inr (s', cmds)
     \<and> bids s' = bids s \<and> asks s' = asks s \<and> bid_id s' = bid_id s \<and> ask_id s' = ask_id s
     \<and> order_ids s \<le> order_ids s'
     \<and> (0 \<le> v \<and> within_limit (position s) \<longrightarrow> within_limit (position s'))"
  by (simp add: on_order_filled_message_def Let_def within_limit_def)

lemma handle_within_limit:
  assumes "handle fw now s ev = Inr (s', cmds)" and "delivered ev" and "within_limit (position s)"
  shows "within_limit (position s')"
proof (cases ev)
  case (OrderBookUpdate i n ap av bp bv)
  with assms show ?thesis by (simp add: position_book_update)
next
  case (TradeTicks i n ap av bp bv)
  with assms show ?thesis by simp
next
  case (OrderFilled c p v)
  with assms filled_total [of fw now s c p v] show ?thesis by auto
next
  case (HedgeFilled c p v)
  with assms show ?thesis by (simp add: on_hedge_filled_message_def)
next
  case (OrderStatus c f r fees)
  with assms show ?thesis by (simp add: position_status)
next
  case (ErrorMessage c d)
  with assms error_result [of s c d s' cmds] show ?thesis by (auto simp: position_status)
qed

lemma handle_ids_ok:
  assumes "handle fw now s ev = Inr (s', cmds)" and "ids_ok s"
  shows "ids_ok s'"
proof (cases ev)
  case (OrderBookUpdate i n ap av bp bv)
  with assms show ?thesis by (auto intro: ids_ok_book_update)
next
  case (TradeTicks i n ap av bp bv)
  with assms show ?thesis by simp
next
  case (OrderFilled c p v)
  with assms filled_total [of fw now s c p v] show ?thesis by (auto simp: ids_ok_def)
next
  case (HedgeFilled c p v)
  with assms show ?thesis by (simp add: on_hedge_filled_message_def)
next
  case (OrderStatus c f r fees)
  with assms show ?thesis by (auto intro: ids_ok_status)
next
  case (ErrorMessage c d)
  with assms error_result [of s c d s' cmds] show ?thesis by (auto intro: ids_ok_status)
qed

lemma handle_retired:
  assumes "handle fw now s ev = Inr (s', cmds)" and "retired s k"
  shows "retired s' k"
proof (cases ev)
  case (OrderBookUpdate i n ap av bp bv)
  with assms show ?thesis by (auto intro: retired_book_update)
next
  case (TradeTicks i n ap av bp bv)
  with assms show ?thesis by simp
next
  case (OrderFilled c p v)
  with assms filled_total [of fw now s c p v] show ?thesis by (auto simp: retired_def)
next
  case (HedgeFilled c p v)
  with assms show ?thesis by (simp add: on_hedge_filled_message_def)
next
  case (OrderStatus c f r fees)
  with assms show ?thesis by (auto intro: retired_status)
next
  case (ErrorMessage c d)
  with assms error_result [of s c d s' cmds] show ?thesis by (auto intro: retired_status)
qed

lemma steps_within_limit:
  "steps fw s s' \<Longrightarrow> within_limit (position s) \<Longrightarrow> within_limit (position s')"
  by (induction rule: steps.induct) (auto intro: handle_within_limit)

lemma steps_ids_ok: "steps fw s s' \<Longrightarrow> ids_ok s \<Longrightarrow> ids_ok s'"
  by (induction rule: steps.induct) (auto intro: handle_ids_ok)

lemma steps_retired: "steps fw s s' \<Longrightarrow> retired s k \<Longrightarrow> retired s' k"
  by (induction rule: steps.induct) (auto intro: handle_retired)

lemma reachable_ids_ok: "reachable fw s \<Longrightarrow> ids_ok s"
  unfolding reachable_def by (erule steps_ids_ok) (simp add: ids_ok_def init_def)

lemma reachable_within_limit: "reachable fw s \<Longrightarrow> within_limit (position s)"
  unfolding reachable_def
  by (erule steps_within_limit) (simp add: within_limit_def init_def POSITION_LIMIT_def)

lemma status_retired_noop:
  "retired s c \<Longrightarrow> on_order_status_message s c f 0 fees = Inr (s, [])"
  by (cases s) (auto simp: status_zero retired_def)

lemma status_retires:
  "ids_ok s \<Longrightarrow> c < order_ids s \<Longrightarrow> on_order_status_message s c f 0 fees = Inr (s1, cmds)
   \<Longrightarrow> retired s1 c"
  by (auto simp: status_zero retired_def ids_ok_def split: if_splits)

lemma status_twice:
  "ids_ok s \<Longrightarrow> on_order_status_message s c f 0 fees = Inr (s1, cmds)
   \<Longrightarrow> on_order_status_message s1 c f' 0 fees' = Inr (s1, [])"
  by (cases s) (auto simp: status_zero ids_ok_def split: if_splits)

lemma duplicate_status:
  assumes "reachable fw s" and "on_order_status_message s c f 0 fees = Inr (s1, cmds)"
    and "steps fw s1 s2" and "s2 = s1 \<or> c < order_ids s"
  shows "on_order_status_message s2 c f' 0 fees' = Inr (s2, [])"
proof (cases "s2 = s1")
  case True
  with assms(2) reachable_ids_ok [OF assms(1)] show ?thesis by (simp add: status_twice)
next
  case False
  with assms(4) have "c < order_ids s" by simp
  with reachable_ids_ok [OF assms(1)] assms(2) have "retired s1 c"
    by (blast intro: status_retires)
  with assms(3) have "retired s2 c" by (rule steps_retired)
  then show ?thesis by (rule status_retired_noop)
qed

section \<open>What the handlers of autotrader5.py preserve\<close>

lemma keys_delete: "fst ` set (AList.delete k al) = fst ` set al - {k}"
  by (auto simp: AList.delete_eq)

lemma keys_update: "fst ` set (AList.update k v al) = insert k (fst ` set al)"
  by (simp add: AList.dom_update)

lemma requote5_preserves:
  assumes "\<And>s b. P s \<Longrightarrow> P (fst (cancel_bid5 s b))"
    and "\<And>s a. P s \<Longrightarrow> P (fst (cancel_ask5 s a))"
    and "\<And>s b v. P s \<Longrightarrow> P (fst (place_bid5 s b v))"
    and "\<And>s a v. P s \<Longrightarrow> P (fst (place_ask5 s a v))"
    and "P s"
  shows "P (fst (requote5 s b a bvol avol))"
  using assms by (simp add: requote5_def split_beta Let_def)

lemma book_update5_Inr:
  assumes "on_order_book_update_message5 fw s i n ap av bp bv = Inr (s', c)" and "i = FUTURE fw"
  shows "\<exists>b a bvol avol. index bv 0 = Inr bvol \<and> index av 0 = Inr avol
           \<and> (s', c) = requote5 s b a bvol avol"
proof -
  from assms obtain q bvol avol where "index bv 0 = Inr bvol" "index av 0 = Inr avol"
    and "requote5 s (fst q) (snd q) bvol avol = (s', c)"
    unfolding on_order_book_update_message5_def
    by (simp add: Let_def case_prod_unfold) (elim and_then_InrE, blast)
  then show ?thesis by metis
qed

lemma book_update5_preserves:
  assumes "\<And>s b. P s \<Longrightarrow> P (fst (cancel_bid5 s b))"
    and "\<And>s a. P s \<Longrightarrow> P (fst (cancel_ask5 s a))"
    and "\<And>s b v. P s \<Longrightarrow> P (fst (place_bid5 s b v))"
    and "\<And>s a v. P s \<Longrightarrow> P (fst (place_ask5 s a v))"
    and "P s"
    and "on_order_book_update_message5 fw s i n ap av bp bv = Inr (s', c)"
  shows "P s'"
proof (cases "i = FUTURE fw")
  case False
  with assms(5,6) show ?thesis by (simp add: on_order_book_update_message5_def)
next
  case True
  from book_update5_Inr [OF assms(6) True] obtain b a bvol avol
    where r: "(s', c) = requote5 s b a bvol avol" by blast
  from assms(1-5) have "P (fst (requote5 s b a bvol avol))"
    by (rule requote5_preserves [where P = P])
  with r show ?thesis by (metis fst_conv)
qed

lemma position_book_update5:
  assumes "on_order_book_update_message5 fw s i n ap av bp bv = Inr (s', c)"
  shows "position5 s' = position5 s"
proof -
  have "(\<lambda>t. position5 t = position5 s) s'"
    by (rule book_update5_preserves
          [where P = "\<lambda>t. position5 t = position5 s", OF _ _ _ _ _ assms])
      (simp_all add: cancel_bid5_def cancel_ask5_def place_bid5_def place_ask5_def Let_def)
  then show ?thesis .
qed

lemma ids_ok_book_update5:
  assumes "ids_ok5 s" and "on_order_book_update_message5 fw s i n ap av bp bv = Inr (s', c)"
  shows "ids_ok5 s'"
proof (rule book_update5_preserves [where P = ids_ok5, OF _ _ _ _ assms])
  show "ids_ok5 (fst (cancel_bid5 s b))" if "ids_ok5 s" for s b
    using that by (simp add: cancel_bid5_def ids_ok5_def)
  show "ids_ok5 (fst (cancel_ask5 s a))" if "ids_ok5 s" for s a
    using that by (simp add: cancel_ask5_def ids_ok5_def)
  show "ids_ok5 (fst (place_bid5 s b v))" if "ids_ok5 s" for s b v
    using that by (auto simp: place_bid5_def ids_ok5_def Let_def keys_update distinct_update)
  show "ids_ok5 (fst (place_ask5 s a v))" if "ids_ok5 s" for s a v
    using that by (auto simp: place_ask5_def ids_ok5_def Let_def keys_update distinct_update)
qed

lemma retired_book_update5:
  assumes "retired5 s k" and "on_order_book_update_message5 fw s i n ap av bp bv = Inr (s', c)"
  shows "retired5 s' k"
proof -
  have "(\<lambda>t. retired5 t k) s'"
  proof (rule book_update5_preserves [where P = "\<lambda>t. retired5 t k", OF _ _ _ _ _ assms(2)])
    show "retired5 (fst (cancel_bid5 s b)) k" if "retired5 s k" for s b
      using that by (auto simp: cancel_bid5_def retired5_def)
    show "retired5 (fst (cancel_ask5 s a)) k" if "retired5 s k" for s a
      using that by (auto simp: cancel_ask5_def retired5_def)
    show "retired5 (fst (place_bid5 s b v)) k" if "retired5 s k" for s b v
      using that by (auto simp: place_bid5_def retired5_def Let_def keys_update)
    show "retired5 (fst (place_ask5 s a v)) k" if "retired5 s k" for s a v
      using that by (auto simp: place_ask5_def retired5_def Let_def keys_update)
    show "retired5 s k" by (rule assms(1))
  qed
  then show ?thesis .
qed

lemma status5_zero:
  "on_order_status_message5 s c f 0 fees =
     Inr (s\<lparr>bid_id5 := (if c = bid_id5 s then 0 else bid_id5 s),
            ask_id5 := (if c \<noteq> bid_id5 s \<and> c = ask_id5 s then 0 else ask_id5 s),
            bids5 := AList.delete c (bids5 s), asks5 := AList.delete c (asks5 s)\<rparr>, [])"
  by (cases s) (simp add: on_order_status_message5_def Let_def)

lemma status5_nonzero: "r \<noteq> 0 \<Longrightarrow> on_order_status_message5 s c f r fees = Inr (s, [])"
  by (simp add: on_order_status_message5_def)

lemma position_status5:
  "on_order_status_message5 s c f r fees = Inr (s', cmds) \<Longrightarrow> position5 s' = position5 s"
  by (cases "r = 0") (auto simp: status5_zero status5_nonzero)

lemma ids_ok_status5:
  assumes "ids_ok5 s" and "on_order_status_message5 s c f r fees = Inr (s', cmds)"
  shows "ids_ok5 s'"
proof (cases "r = 0")
  case False
  with assms show ?thesis by (simp add: status5_nonzero)
next
  case True
  with assms(2) have s': "s' =
    s\<lparr>bid_id5 := (if c = bid_id5 s then 0 else bid_id5 s),
      ask_id5 := (if c \<noteq> bid_id5 s \<and> c = ask_id5 s then 0 else ask_id5 s),
      bids5 := AList.delete c (bids5 s), asks5 := AList.delete c (asks5 s)\<rparr>"
    by (simp add: status5_zero)
  have n: "order_ids5 s' = order_ids5 s" by (simp add: s')
  have b: "bid_id5 s' = 0 \<or> bid_id5 s' = bid_id5 s" by (simp add: s')
  have a: "ask_id5 s' = 0 \<or> ask_id5 s' = ask_id5 s" by (simp add: s')
  have e: "bid_id5 s' = ask_id5 s' \<longrightarrow> bid_id5 s' = 0"
    using assms(1) by (auto simp: s' ids_ok5_def)
  have kb: "fst ` set (bids5 s') = fst ` set (bids5 s) - {c}" by (simp add: s' keys_delete)
  have ka: "fst ` set (asks5 s') = fst ` set (asks5 s) - {c}" by (simp add: s' keys_delete)
  have d: "distinct (map fst (bids5 s'))" "distinct (map fst (asks5 s'))"
    using assms(1) by (simp_all add: s' ids_ok5_def distinct_delete)
  from assms(1) have o: "0 < order_ids5 s" "bid_id5 s < order_ids5 s" "ask_id5 s < order_ids5 s"
    and kb0: "\<forall>i. i \<in> fst ` set (bids5 s) \<longrightarrow> 0 < i \<and> i < order_ids5 s"
    and ka0: "\<forall>i. i \<in> fst ` set (asks5 s) \<longrightarrow> 0 < i \<and> i < order_ids5 s"
    and dj: "fst ` set (bids5 s) \<inter> fst ` set (asks5 s) = {}"
    by (simp_all add: ids_ok5_def)
  have "bid_id5 s' < order_ids5 s'" using b o n by auto
  moreover have "ask_id5 s' < order_ids5 s'" using a o n by auto
  moreover have "\<forall>i. i \<in> fst ` set (bids5 s') \<longrightarrow> 0 < i \<and> i < order_ids5 s'"
    using kb0 by (simp add: kb n)
  moreover have "\<forall>i. i \<in> fst ` set (asks5 s') \<longrightarrow> 0 < i \<and> i < order_ids5 s'"
    using ka0 by (simp add: ka n)
  moreover have "fst ` set (bids5 s') \<inter> fst ` set (asks5 s') = {}"
    using dj unfolding kb ka by blast
  ultimately show ?thesis using e d o(1) n unfolding ids_ok5_def by simp
qed

lemma retired_status5:
  assumes "retired5 s k" and "on_order_status_message5 s c f r fees = Inr (s', cmds)"
  shows "retired5 s' k"
proof (cases "r = 0")
  case False
  with assms show ?thesis by (simp add: status5_nonzero)
next
  case True
  with assms(2) have s': "s' =
    s\<lparr>bid_id5 := (if c = bid_id5 s then 0 else bid_id5 s),
      ask_id5 := (if c \<noteq> bid_id5 s \<and> c = ask_id5 s then 0 else ask_id5 s),
      bids5 := AList.delete c (bids5 s), asks5 := AList.delete c (asks5 s)\<rparr>"
    by (simp add: status5_zero)
  have kb: "fst ` set (bids5 s') = fst ` set (bids5 s) - {c}" by (simp add: s' keys_delete)
  have ka: "fst ` set (asks5 s') = fst ` set (asks5 s) - {c}" by (simp add: s' keys_delete)
  have "k < order_ids5 s'" using assms(1) by (simp add: s' retired5_def)
  moreover have "k \<notin> fst ` set (bids5 s')" using assms(1) by (simp add: kb retired5_def)
  moreover have "k \<notin> fst ` set (asks5 s')" using assms(1) by (simp add: ka retired5_def)
  moreover have "k = 0 \<or> (k \<noteq> bid_id5 s' \<and> k \<noteq> ask_id5 s')"
    using assms(1) by (auto simp: s' retired5_def)
  ultimately show ?thesis unfolding retired5_def by simp
qed

lemma error5_result:
  "on_error_message5 s c d = Inr (s', cmds) \<Longrightarrow>
     (s', cmds) = (s, []) \<or> on_order_status_message5 s c 0 0 0 = Inr (s', cmds)"
  by (auto simp: on_error_message5_def split: if_splits)

lemma filled5_total:
  "\<exists>s' cmds. on_order_filled_message5 fw s c p v = Inr (s', cmds)
     \<and> bids5 s' = bids5 s \<and> asks5 s' = asks5 s \<and> bid_id5 s' = bid_id5 s
     \<and> ask_id5 s' = ask_id5 s \<and> order_ids5 s \<le> order_ids5 s'
     \<and> (0 \<le> v \<and> within_limit (position5 s) \<longrightarrow> within_limit (position5 s'))"
  by (simp add: on_order_filled_message5_def Let_def within_limit_def POSITION_LIMIT_def)

lemma handle5_within_limit:
  assumes "handle5 fw s ev = Inr (s', cmds)" and "delivered ev"
    and "within_limit (position5 s)"
  shows "within_limit (position5 s')"
proof (cases ev)
  case (OrderBookUpdate i n ap av bp bv)
  with assms show ?thesis by (simp add: position_book_update5)
next
  case (TradeTicks i n ap av bp bv)
  with assms show ?thesis by (simp add: on_trade_ticks_message5_def)
next
  case (OrderFilled c p v)
  with assms filled5_total [of fw s c p v] show ?thesis by auto
next
  case (HedgeFilled c p v)
  with assms show ?thesis by (simp add: on_hedge_filled_message5_def)
next
  case (OrderStatus c f r fees)
  with assms show ?thesis by (simp add: position_status5)
next
  case (ErrorMessage c d)
  with assms error5_result [of s c d s' cmds] show ?thesis by (auto simp: position_status5)
qed

lemma handle5_ids_ok:
  assumes "handle5 fw s ev = Inr (s', cmds)" and "ids_ok5 s"
  shows "ids_ok5 s'"
proof (cases ev)
  case (OrderBookUpdate i n ap av bp bv)
  with assms show ?thesis by (auto intro: ids_ok_book_update5)
next
  case (TradeTicks i n ap av bp bv)
  with assms show ?thesis by (simp add: on_trade_ticks_message5_def)
next
  case (OrderFilled c p v)
  with assms filled5_total [of fw s c p v] show ?thesis by (auto simp: ids_ok5_def)
next
  case (HedgeFilled c p v)
  with assms show ?thesis by (simp add: on_hedge_filled_message5_def)
next
  case (OrderStatus c f r fees)
  with assms show ?thesis by (auto intro: ids_ok_status5)
next
  case (ErrorMessage c d)
  with assms error5_result [of s c d s' cmds] show ?thesis by (auto intro: ids_ok_status5)
qed

lemma handle5_retired:
  assumes "handle5 fw s ev = Inr (s', cmds)" and "retired5 s k"
  shows "retired5 s' k"
proof (cases ev)
  case (OrderBookUpdate i n ap av bp bv)
  with assms show ?thesis by (auto intro: retired_book_update5)
next
  case (TradeTicks i n ap av bp bv)
  with assms show ?thesis by (simp add: on_trade_ticks_message5_def)
next
  case (OrderFilled c p v)
  with assms filled5_total [of fw s c p v] show ?thesis by (auto simp: retired5_def)
next
  case (HedgeFilled c p v)
  with assms show ?thesis by (simp add: on_hedge_filled_message5_def)
next
  case (OrderStatus c f r fees)
  with assms show ?thesis by (auto intro: retired_status5)
next
  case (ErrorMessage c d)
  with assms error5_result [of s c d s' cmds] show ?thesis by (auto intro: retired_status5)
qed

lemma steps5_within_limit:
  "steps5 fw s s' \<Longrightarrow> within_limit (position5 s) \<Longrightarrow> within_limit (position5 s')"
  by (induction rule: steps5.induct) (auto intro: handle5_within_limit)

lemma steps5_ids_ok: "steps5 fw s s' \<Longrightarrow> ids_ok5 s \<Longrightarrow> ids_ok5 s'"
  by (induction rule: steps5.induct) (auto intro: handle5_ids_ok)

lemma steps5_retired: "steps5 fw s s' \<Longrightarrow> retired5 s k \<Longrightarrow> retired5 s' k"
  by (induction rule: steps5.induct) (auto intro: handle5_retired)

lemma reachable5_ids_ok: "reachable5 fw s \<Longrightarrow> ids_ok5 s"
  unfolding reachable5_def by (erule steps5_ids_ok) (simp add: ids_ok5_def init5_def)

lemma reachable5_within_limit: "reachable5 fw s \<Longrightarrow> within_limit (position5 s)"
  unfolding reachable5_def
  by (erule steps5_within_limit) (simp add: within_limit_def init5_def POSITION_LIMIT_def)

lemma status5_retired_noop:
  "retired5 s c \<Longrightarrow> on_order_status_message5 s c f 0 fees = Inr (s, [])"
  by (cases s) (auto simp: status5_zero retired5_def split: if_splits)

lemma status5_retires:
  assumes "ids_ok5 s" and "c < order_ids5 s"
    and "on_order_status_message5 s c f 0 fees = Inr (s1, cmds)"
  shows "retired5 s1 c"
proof -
  from assms(3) have s1: "s1 =
    s\<lparr>bid_id5 := (if c = bid_id5 s then 0 else bid_id5 s),
      ask_id5 := (if c \<noteq> bid_id5 s \<and> c = ask_id5 s then 0 else ask_id5 s),
      bids5 := AList.delete c (bids5 s), asks5 := AList.delete c (asks5 s)\<rparr>"
    by (simp add: status5_zero)
  have "c \<notin> fst ` set (bids5 s1)" "c \<notin> fst ` set (asks5 s1)"
    by (simp_all add: s1 keys_delete)
  moreover have "c < order_ids5 s1" using assms(2) by (simp add: s1)
  moreover have "c = 0 \<or> (c \<noteq> bid_id5 s1 \<and> c \<noteq> ask_id5 s1)"
    using assms(1) by (auto simp: s1 ids_ok5_def)
  ultimately show ?thesis unfolding retired5_def by simp
qed

lemma status5_twice:
  assumes "ids_ok5 s" and "on_order_status_message5 s c f 0 fees = Inr (s1, cmds)"
  shows "on_order_status_message5 s1 c f' 0 fees' = Inr (s1, [])"
proof -
  from assms(2) have s1: "s1 =
    s\<lparr>bid_id5 := (if c = bid_id5 s then 0 else bid_id5 s),
      ask_id5 := (if c \<noteq> bid_id5 s \<and> c = ask_id5 s then 0 else ask_id5 s),
      bids5 := AList.delete c (bids5 s), asks5 := AList.delete c (asks5 s)\<rparr>"
    by (simp add: status5_zero)
  have b: "(if c = bid_id5 s1 then 0 else bid_id5 s1) = bid_id5 s1" by (simp add: s1)
  have a: "(if c \<noteq> bid_id5 s1 \<and> c = ask_id5 s1 then 0 else ask_id5 s1) = ask_id5 s1"
    using assms(1) by (auto simp: s1 ids_ok5_def)
  have d: "AList.delete c (bids5 s1) = bids5 s1" "AList.delete c (asks5 s1) = asks5 s1"
    by (simp_all add: s1 AList.delete_idem)
  show ?thesis unfolding status5_zero b a d by simp
qed

lemma duplicate_status5:
  assumes "reachable5 fw s" and "on_order_status_message5 s c f 0 fees = Inr (s1, cmds)"
    and "steps5 fw s1 s2" and "s2 = s1 \<or> c < order_ids5 s"
  shows "on_order_status_message5 s2 c f' 0 fees' = Inr (s2, [])"
proof (cases "s2 = s1")
  case True
  with assms(2) reachable5_ids_ok [OF assms(1)] show ?thesis by (simp add: status5_twice)
next
  case False
  with assms(4) have "c < order_ids5 s" by simp
  with reachable5_ids_ok [OF assms(1)] assms(2) have "retired5 s1 c"
    by (blast intro: status5_retires)
  with assms(3) have "retired5 s2 c" by (rule steps5_retired)
  then show ?thesis by (rule status5_retired_noop)
qed

section \<open>Evaluations\<close>

text \<open>
  Closed runs of the handlers. The float operations on the concrete operands are
  evaluated one by one with the code equations; the handlers are then unfolded over them.
\<close>

lemmas py_arith_simps =
  py_add.simps py_sub.simps py_mul.simps py_truediv.simps py_floordiv.simps

lemma bounds_ready_trader_go:
  "MIN_BID_NEAREST_TICK ready_trader_go = 100"
  "MAX_ASK_NEAREST_TICK ready_trader_go = 2147483600"
  by (simp_all add: MIN_BID_NEAREST_TICK_def MAX_ASK_NEAREST_TICK_def ready_trader_go_def
      TICK_SIZE_IN_CENTS_def)

lemma flat_skew:
  "py_truediv (PyInt 0) (PyInt 100) = Inr (PyFloat 0)"
  "py_mul (PyFloat 0) (PyInt 2) = Inr (PyFloat 0)"
  "py_truediv (PyFloat 0) (PyInt 2) = Inr (PyFloat 0)"
  "py_add (PyInt 10001) (PyFloat 0) = Inr (PyFloat 10001)"
  by code_simp+

lemma narrow_quotes:
  "py_truediv (PyInt 2) (PyInt 2) = Inr (PyFloat 1)"
  "py_sub (PyFloat 10001) (PyFloat 1) = Inr (PyFloat 10000)"
  "py_add (PyFloat 10001) (PyFloat 1) = Inr (PyFloat 10002)"
  "py_floordiv (PyFloat 10000) (PyInt 100) = Inr (PyFloat 100)"
  "py_floordiv (PyFloat 10002) (PyInt 100) = Inr (PyFloat 100)"
  "py_mul (PyFloat 100) (PyInt 100) = Inr (PyFloat 10000)"
  by code_simp+

lemma prices_narrow_book:
  assumes "position s = 0" and "val (trading_volume s) = 0"
  shows "prices ready_trader_go s 10000 10002 = Inr (PyFloat 10000, PyFloat 10000)"
  using assms
  by (simp add: prices_def clamped_fair_price_def trend_adjusted_def quote_prices_def
      round_to_tick_def and_then_def LOT_SIZE_def TICK_SIZE_IN_CENTS_def
      bounds_ready_trader_go flat_skew narrow_quotes py_max_def py_min_def
      del: py_arith_simps)

lemma book_update_eval:
  assumes "index bp 0 = Inr b0" and "index ap 0 = Inr a0"
    and "prices fw s b0 a0 = Inr (bx, ax)" and "update_trend s av bv = Inr s1"
  shows "on_order_book_update_message fw s (FUTURE fw) n ap av bp bv = Inr (requote s1 bx ax)"
  using assms by (simp add: on_order_book_update_message_def and_then_def)

lemma first_volume: "py_truediv (PyInt 12) (PyInt 2) = Inr (PyFloat 6)"
  by code_simp

lemma narrow_book_update:
  "on_order_book_update_message ready_trader_go init 0 1
     [10002, 10100, 10200] [5, 5, 5] [10000, 9900, 9800] [7, 7, 7] =
   Inr (quoting, [InsertOrder 1 BUY 10000 10 FILL_AND_KILL,
                  InsertOrder 2 SELL 10000 10 FILL_AND_KILL])"
proof -
  have p: "prices ready_trader_go init 10000 10002 = Inr (PyFloat 10000, PyFloat 10000)"
    by (rule prices_narrow_book) (simp_all add: init_def)
  have u: "update_trend init [5, 5, 5] [7, 7, 7] = Inr (init\<lparr>trading_volume := PyFloat 6\<rparr>)"
    by (simp add: update_trend_def index_def and_then_def first_volume init_def
        del: py_arith_simps)
  have "on_order_book_update_message ready_trader_go init (FUTURE ready_trader_go) 1
     [10002, 10100, 10200] [5, 5, 5] [10000, 9900, 9800] [7, 7, 7] =
     Inr (requote (init\<lparr>trading_volume := PyFloat 6\<rparr>) (PyFloat 10000) (PyFloat 10000))"
    by (rule book_update_eval [OF _ _ p u]) (simp_all add: index_def)
  then show ?thesis
    by (simp add: ready_trader_go_def requote_def cancel_bid_def cancel_ask_def place_bid_def
        place_ask_def init_def quoting_def POSITION_LIMIT_def LOT_SIZE_def)
qed

lemma book_update5_eval:
  assumes "index bv 0 = Inr bvol" and "index av 0 = Inr avol"
    and "index bp 0 = Inr b0" and "index ap 0 = Inr a0"
    and "index ap 2 = Inr a2" and "index bp 2 = Inr b2"
    and "prices5 fw s b0 a0 b2 a2 = Inr (bx, ax)"
  shows "on_order_book_update_message5 fw s (FUTURE fw) n ap av bp bv =
         Inr (requote5 s bx ax bvol avol)"
  using assms by (simp add: on_order_book_update_message5_def and_then_def)

lemma empty_bid_side:
  "py_mul (PyFloat 0) (PyInt 10200) = Inr (PyFloat 0)"
  "py_add (PyInt 5000) (PyFloat 0) = Inr (PyFloat 5000)"
  "py_truediv (PyInt 10200) (PyInt 2) = Inr (PyFloat 5100)"
  "py_sub (PyFloat 5000) (PyFloat 5100) = Inr (PyFloat (- 100))"
  "py_add (PyFloat 5000) (PyFloat 5100) = Inr (PyFloat 10100)"
  by code_simp+

lemma prices5_empty_bid_side:
  assumes "position5 s = 0"
  shows "prices5 ready_trader_go s 0 10000 0 10200 = Inr (PyInt 100, PyInt 10300)"
  using assms
  by (simp add: prices5_def clamped_fair_price_def quote_prices_def
      round_to_tick_def and_then_def LOT_SIZE5_def TICK_SIZE_IN_CENTS_def
      bounds_ready_trader_go flat_skew empty_bid_side py_max_def py_min_def
      del: py_arith_simps) simp

lemma empty_bid_side_update5:
  "on_order_book_update_message5 ready_trader_go init5 0 1
     [10000, 10100, 10200] [5, 5, 5] [0, 0, 0] [0, 0, 0] =
   Inr (quoting5, [InsertOrder 1 BUY 100 0 GOOD_FOR_DAY,
                   InsertOrder 2 SELL 10300 5 GOOD_FOR_DAY])"
proof -
  have p: "prices5 ready_trader_go init5 0 10000 0 10200 = Inr (PyInt 100, PyInt 10300)"
    by (rule prices5_empty_bid_side) (simp add: init5_def)
  have "on_order_book_update_message5 ready_trader_go init5 (FUTURE ready_trader_go) 1
     [10000, 10100, 10200] [5, 5, 5] [0, 0, 0] [0, 0, 0] =
     Inr (requote5 init5 (PyInt 100) (PyInt 10300) 0 5)"
    by (rule book_update5_eval [OF _ _ _ _ _ _ p]) (simp_all add: index_def)
  then show ?thesis
    by (simp add: ready_trader_go_def requote5_def cancel_bid5_def cancel_ask5_def
        place_bid5_def place_ask5_def init5_def quoting5_def POSITION_LIMIT_def
        outstanding_volume_def)
qed

lemma reachable_quoting: "reachable ready_trader_go quoting"
  unfolding reachable_def
  by (rule steps_step [OF steps_refl,
        where ev = "OrderBookUpdate 0 1 [10002, 10100, 10200] [5, 5, 5] [10000, 9900, 9800] [7, 7, 7]"
          and now = 0])
    (simp_all add: narrow_book_update)

lemma fill_of_quoting:
  "on_order_filled_message ready_trader_go 0 quoting 1 10000 10 =
     Inr (hedged, [HedgeOrder 3 ASK 100 10])"
  by (simp add: on_order_filled_message_def quoting_def hedged_def Let_def POSITION_LIMIT_def
      bounds_ready_trader_go)

lemma reachable_hedged: "reachable ready_trader_go hedged"
  using reachable_quoting unfolding reachable_def
  by (rule steps_step [where ev = "OrderFilled 1 10000 10" and now = 0])
    (simp_all add: fill_of_quoting)

lemma reachable5_quoting5: "reachable5 ready_trader_go quoting5"
  unfolding reachable5_def
  by (rule steps5_step [OF steps5_refl,
        where ev = "OrderBookUpdate 0 1 [10000, 10100, 10200] [5, 5, 5] [0, 0, 0] [0, 0, 0]"])
    (simp_all add: empty_bid_side_update5)

lemma fill_of_quoting5:
  "on_order_filled_message5 ready_trader_go quoting5 2 10300 5 =
     Inr (hedged5, [HedgeOrder 3 BID 2147483600 5])"
  by (simp add: on_order_filled_message5_def quoting5_def hedged5_def Let_def POSITION_LIMIT_def
      bounds_ready_trader_go)

lemma reachable5_hedged5: "reachable5 ready_trader_go hedged5"
  using reachable5_quoting5 unfolding reachable5_def
  by (rule steps5_step [where ev = "OrderFilled 2 10300 5"])
    (simp_all add: fill_of_quoting5)

lemma status_of_quoting:
  "on_order_status_message quoting 1 10 0 0 = Inr (bid_retired, [])"
  "on_order_status_message bid_retired 2 0 0 0 = Inr (both_retired, [])"
  by (simp_all add: on_order_status_message_def quoting_def bid_retired_def both_retired_def
      Let_def)

lemma status_of_quoting5:
  "on_order_status_message5 quoting5 1 10 0 0 = Inr (bid_retired5, [])"
  "on_order_status_message5 bid_retired5 2 0 0 0 = Inr (both_retired5, [])"
  by (simp_all add: on_order_status_message5_def quoting5_def bid_retired5_def
      both_retired5_def Let_def)

lemma steps_bid_retired: "steps ready_trader_go bid_retired both_retired"
  by (rule steps_step [OF steps_refl, where ev = "OrderStatus 2 0 0 0" and now = 0])
    (simp_all add: status_of_quoting)

lemma steps5_bid_retired5: "steps5 ready_trader_go bid_retired5 both_retired5"
  by (rule steps5_step [OF steps5_refl, where ev = "OrderStatus 2 0 0 0"])
    (simp_all add: status_of_quoting5)

section \<open>The claims\<close>

text \<open>
  C9. In both traders the handler of a hedge fill only logs: whatever the state and the
  arguments, it returns the state as it was (position, quote slots, trend state and
  outstanding orders included) and sends no command. The same holds of the event
  delivered through the dispatcher.
\<close>

theorem hedge_filled_changes_nothing:
  "on_hedge_filled_message s c p v = Inr (s, [])
   \<and> on_hedge_filled_message5 t c p v = Inr (t, [])
   \<and> handle fw now s (HedgeFilled c p v) = Inr (s, [])
   \<and> handle5 fw t (HedgeFilled c p v) = Inr (t, [])"
  by (simp add: on_hedge_filled_message_def on_hedge_filled_message5_def)

text \<open>
  C10. An order book update for an instrument other than the future leaves the whole
  state of either trader unchanged and sends no command, whatever the ladders hold
  (they are not even read).
\<close>

theorem other_instrument_ignored:
  "i \<noteq> FUTURE fw \<Longrightarrow>
     on_order_book_update_message fw s i n ap av bp bv = Inr (s, [])
     \<and> on_order_book_update_message5 fw t i n ap av bp bv = Inr (t, [])"
  by (simp add: on_order_book_update_message_def on_order_book_update_message5_def)

theorem other_instrument_ignored_witness:
  "1 \<noteq> FUTURE ready_trader_go
   \<and> on_order_book_update_message ready_trader_go init 1 7 [] [] [] [] = Inr (init, [])
   \<and> on_order_book_update_message5 ready_trader_go init5 1 7 [] [] [] [] = Inr (init5, [])"
proof -
  have h: "1 \<noteq> FUTURE ready_trader_go" by (simp add: ready_trader_go_def)
  from h other_instrument_ignored [OF h, of init 7 "[]" "[]" "[]" "[]" init5]
  show ?thesis by simp
qed

text \<open>
  C1. In every reachable state of either trader (the initial state, with position 0,
  and every state a handler leaves behind, the fills delivered having a volume that is
  not negative), the position lies between \<open>-POSITION_LIMIT\<close> and \<open>POSITION_LIMIT\<close>.
\<close>

theorem position_within_limit:
  "(reachable fw s \<longrightarrow> - POSITION_LIMIT \<le> position s \<and> position s \<le> POSITION_LIMIT)
   \<and> (reachable5 fw t \<longrightarrow> - POSITION_LIMIT \<le> position5 t \<and> position5 t \<le> POSITION_LIMIT)"
  using reachable_within_limit [of fw s] reachable5_within_limit [of fw t]
  by (simp add: within_limit_def)

theorem position_within_limit_witness:
  "reachable ready_trader_go hedged \<and> position hedged = 10
   \<and> - POSITION_LIMIT \<le> position hedged \<and> position hedged \<le> POSITION_LIMIT
   \<and> reachable5 ready_trader_go hedged5 \<and> position5 hedged5 = - 5
   \<and> - POSITION_LIMIT \<le> position5 hedged5 \<and> position5 hedged5 \<le> POSITION_LIMIT"
  using position_within_limit [of ready_trader_go hedged hedged5]
    reachable_hedged reachable5_hedged5
  by (simp add: hedged_def hedged5_def)

text \<open>
  C3. In \<^verbatim>\<open>autotrader.py\<close>, a fill of an order in \<^verbatim>\<open>self.bids\<close> that would take the
  position strictly above \<open>POSITION_LIMIT\<close> makes the trader send one command, the cancel
  of that order, and no hedge; the position afterwards is the position before the fill
  (the state differs only in the time stamp recorded for the order). The same holds on
  the ask side, below \<open>-POSITION_LIMIT\<close>, for an order in \<^verbatim>\<open>self.asks\<close> that is not
  also in \<^verbatim>\<open>self.bids\<close>: the handler tests the bids first, and no reachable state
  has an id in both sets (\<open>reachable_ids_ok\<close>).
\<close>

theorem breaching_fill_cancelled:
  "(c \<in> bids s \<and> POSITION_LIMIT < position s + v \<longrightarrow>
      (\<exists>s'. on_order_filled_message fw now s c p v = Inr (s', [CancelOrder c])
         \<and> position s' = position s
         \<and> s' = s\<lparr>order_timestamps := AList.update c now (order_timestamps s)\<rparr>))
   \<and> (c \<in> asks s \<and> c \<notin> bids s \<and> position s - v < - POSITION_LIMIT \<longrightarrow>
      (\<exists>s'. on_order_filled_message fw now s c p v = Inr (s', [CancelOrder c])
         \<and> position s' = position s
         \<and> s' = s\<lparr>order_timestamps := AList.update c now (order_timestamps s)\<rparr>))"
  by (cases s) (simp add: on_order_filled_message_def Let_def)

theorem breaching_fill_cancelled_witness:
  "1 \<in> bids (quoting\<lparr>position := 95\<rparr>)
   \<and> POSITION_LIMIT < position (quoting\<lparr>position := 95\<rparr>) + 10
   \<and> on_order_filled_message ready_trader_go 0 (quoting\<lparr>position := 95\<rparr>) 1 10000 10 =
       Inr (quoting\<lparr>position := 95, order_timestamps := [(1, 0)]\<rparr>, [CancelOrder 1])
   \<and> 2 \<in> asks (quoting\<lparr>position := - 95\<rparr>) \<and> 2 \<notin> bids (quoting\<lparr>position := - 95\<rparr>)
   \<and> position (quoting\<lparr>position := - 95\<rparr>) - 10 < - POSITION_LIMIT
   \<and> on_order_filled_message ready_trader_go 0 (quoting\<lparr>position := - 95\<rparr>) 2 10000 10 =
       Inr (quoting\<lparr>position := - 95, order_timestamps := [(2, 0)]\<rparr>, [CancelOrder 2])"
  using breaching_fill_cancelled
      [of 1 "quoting\<lparr>position := 95\<rparr>" 10 ready_trader_go 0 10000]
    breaching_fill_cancelled
      [of 2 "quoting\<lparr>position := - 95\<rparr>" 10 ready_trader_go 0 10000]
  by (simp add: quoting_def POSITION_LIMIT_def)

text \<open>
  C7. In a reachable state, let the order id \<open>c\<close> get a terminal status
  (\<^verbatim>\<open>remaining_volume == 0\<close>). A later terminal status for \<open>c\<close> changes nothing, sends
  nothing and raises nothing: right away (whatever \<open>c\<close> is), and after any further
  events when \<open>c\<close> is an id the trader had issued. This holds for both traders.
\<close>

theorem duplicate_terminal_status_ignored:
  "(reachable fw s \<and> on_order_status_message s c f 0 fees = Inr (s1, cmds)
      \<and> steps fw s1 s2 \<and> (s2 = s1 \<or> c < order_ids s)
    \<longrightarrow> on_order_status_message s2 c f' 0 fees' = Inr (s2, []))
   \<and> (reachable5 fw t \<and> on_order_status_message5 t c f 0 fees = Inr (t1, cmds5)
      \<and> steps5 fw t1 t2 \<and> (t2 = t1 \<or> c < order_ids5 t)
    \<longrightarrow> on_order_status_message5 t2 c f' 0 fees' = Inr (t2, []))"
  using duplicate_status [of fw s c f fees s1 cmds s2 f' fees']
    duplicate_status5 [of fw t c f fees t1 cmds5 t2 f' fees']
  by blast

theorem duplicate_terminal_status_ignored_witness:
  "reachable ready_trader_go quoting
   \<and> on_order_status_message quoting 1 10 0 0 = Inr (bid_retired, [])
   \<and> steps ready_trader_go bid_retired both_retired \<and> 1 < order_ids quoting
   \<and> on_order_status_message both_retired 1 0 0 0 = Inr (both_retired, [])
   \<and> on_order_status_message bid_retired 1 0 0 0 = Inr (bid_retired, [])
   \<and> reachable5 ready_trader_go quoting5
   \<and> on_order_status_message5 quoting5 1 10 0 0 = Inr (bid_retired5, [])
   \<and> steps5 ready_trader_go bid_retired5 both_retired5 \<and> 1 < order_ids5 quoting5
   \<and> on_order_status_message5 both_retired5 1 0 0 0 = Inr (both_retired5, [])
   \<and> on_order_status_message5 bid_retired5 1 0 0 0 = Inr (bid_retired5, [])"
proof -
  have a: "1 < order_ids quoting" and b: "1 < order_ids5 quoting5"
    by (simp_all add: quoting_def quoting5_def)
  note t1 = duplicate_terminal_status_ignored
    [of ready_trader_go quoting 1 10 0 bid_retired "[]" both_retired 0 0
        quoting5 bid_retired5 "[]" both_retired5]
  note t2 = duplicate_terminal_status_ignored
    [of ready_trader_go quoting 1 10 0 bid_retired "[]" bid_retired 0 0
        quoting5 bid_retired5 "[]" bid_retired5]
  from t1 t2 a b reachable_quoting reachable5_quoting5 status_of_quoting(1)
    status_of_quoting5(1) steps_bid_retired steps5_bid_retired5
    steps_refl [of ready_trader_go bid_retired] steps5_refl [of ready_trader_go bid_retired5]
  show ?thesis by simp
qed

text \<open>
  C8. In both traders a fill that does not take the position beyond the limit, in
  particular one that takes it to exactly \<open>POSITION_LIMIT\<close> (or \<open>-POSITION_LIMIT\<close> on the
  ask side), is kept: the position moves by the filled volume and one hedge order for
  that volume is sent, at \<open>MIN_BID_NEAREST_TICK\<close> to sell and \<open>MAX_ASK_NEAREST_TICK\<close> to
  buy. So the cancel (or the clamp) happens only when the limit is strictly exceeded.
\<close>

theorem fill_to_limit_hedged:
  "(c \<in> bids s \<and> position s + v \<le> POSITION_LIMIT \<longrightarrow>
      on_order_filled_message fw now s c p v =
        Inr (s\<lparr>order_timestamps := AList.update c now (order_timestamps s),
               position := position s + v, order_ids := order_ids s + 1\<rparr>,
             [HedgeOrder (order_ids s) ASK (MIN_BID_NEAREST_TICK fw) v]))
   \<and> (c \<in> asks s \<and> c \<notin> bids s \<and> - POSITION_LIMIT \<le> position s - v \<longrightarrow>
      on_order_filled_message fw now s c p v =
        Inr (s\<lparr>order_timestamps := AList.update c now (order_timestamps s),
               position := position s - v, order_ids := order_ids s + 1\<rparr>,
             [HedgeOrder (order_ids s) BID (MAX_ASK_NEAREST_TICK fw) v]))
   \<and> (c \<in> fst ` set (bids5 t) \<and> position5 t + v \<le> POSITION_LIMIT \<longrightarrow>
      on_order_filled_message5 fw t c p v =
        Inr (t\<lparr>position5 := position5 t + v, order_ids5 := order_ids5 t + 1\<rparr>,
             [HedgeOrder (order_ids5 t) ASK (MIN_BID_NEAREST_TICK fw) v]))
   \<and> (c \<in> fst ` set (asks5 t) \<and> c \<notin> fst ` set (bids5 t)
        \<and> - POSITION_LIMIT \<le> position5 t - v \<longrightarrow>
      on_order_filled_message5 fw t c p v =
        Inr (t\<lparr>position5 := position5 t - v, order_ids5 := order_ids5 t + 1\<rparr>,
             [HedgeOrder (order_ids5 t) BID (MAX_ASK_NEAREST_TICK fw) v]))"
  by (cases s, cases t)
    (simp add: on_order_filled_message_def on_order_filled_message5_def Let_def)

theorem fill_to_limit_hedged_witness:
  "1 \<in> bids (quoting\<lparr>position := 90\<rparr>)
   \<and> position (quoting\<lparr>position := 90\<rparr>) + 10 = POSITION_LIMIT
   \<and> on_order_filled_message ready_trader_go 0 (quoting\<lparr>position := 90\<rparr>) 1 10000 10 =
       Inr (quoting\<lparr>order_timestamps := [(1, 0)], position := 100, order_ids := 4\<rparr>,
            [HedgeOrder 3 ASK 100 10])
   \<and> 2 \<in> asks (quoting\<lparr>position := - 90\<rparr>) \<and> 2 \<notin> bids (quoting\<lparr>position := - 90\<rparr>)
   \<and> position (quoting\<lparr>position := - 90\<rparr>) - 10 = - POSITION_LIMIT
   \<and> on_order_filled_message ready_trader_go 0 (quoting\<lparr>position := - 90\<rparr>) 2 10000 10 =
       Inr (quoting\<lparr>order_timestamps := [(2, 0)], position := - 100, order_ids := 4\<rparr>,
            [HedgeOrder 3 BID 2147483600 10])
   \<and> 1 \<in> fst ` set (bids5 (quoting5\<lparr>position5 := 90\<rparr>))
   \<and> position5 (quoting5\<lparr>position5 := 90\<rparr>) + 10 = POSITION_LIMIT
   \<and> on_order_filled_message5 ready_trader_go (quoting5\<lparr>position5 := 90\<rparr>) 1 100 10 =
       Inr (quoting5\<lparr>position5 := 100, order_ids5 := 4\<rparr>, [HedgeOrder 3 ASK 100 10])
   \<and> 2 \<in> fst ` set (asks5 (quoting5\<lparr>position5 := - 95\<rparr>))
   \<and> 2 \<notin> fst ` set (bids5 (quoting5\<lparr>position5 := - 95\<rparr>))
   \<and> position5 (quoting5\<lparr>position5 := - 95\<rparr>) - 5 = - POSITION_LIMIT
   \<and> on_order_filled_message5 ready_trader_go (quoting5\<lparr>position5 := - 95\<rparr>) 2 10300 5 =
       Inr (quoting5\<lparr>position5 := - 100, order_ids5 := 4\<rparr>,
            [HedgeOrder 3 BID 2147483600 5])"
  using fill_to_limit_hedged
      [of 1 "quoting\<lparr>position := 90\<rparr>" 10 ready_trader_go 0 10000
          "quoting5\<lparr>position5 := 90\<rparr>" ]
    fill_to_limit_hedged
      [of 2 "quoting\<lparr>position := - 90\<rparr>" 10 ready_trader_go 0 10000
          "quoting5\<lparr>position5 := - 95\<rparr>"]
    fill_to_limit_hedged
      [of 1 "quoting\<lparr>position := 90\<rparr>" 10 ready_trader_go 0 100
          "quoting5\<lparr>position5 := 90\<rparr>" ]
    fill_to_limit_hedged
      [of 2 "quoting\<lparr>position := - 90\<rparr>" 5 ready_trader_go 0 10300
          "quoting5\<lparr>position5 := - 95\<rparr>"]
  by (simp add: quoting_def quoting5_def POSITION_LIMIT_def bounds_ready_trader_go)

end
